theory Spec2Isabelle
  imports Main "HOL-Library.Word" "HOL-Library.Monad_Syntax"
begin

unbundle bit_operations_syntax

section \<open>Machine types, pointers and containers\<close>

text \<open>
  \<open>MemAddr\<close> is \<open>u_int64_t\<close>; every arithmetic operation on it wraps modulo \<open>2^64\<close>.
  A \<open>linked_ptr<T>\<close> (and a raw owning pointer) is an optional value: \<open>None\<close> is the NULL
  pointer.  The objects of this program are never shared between two containers, with one
  exception (the current function of \<open>LoadMap\<close>), which is treated where it occurs.
\<close>

type_synonym MemAddr = "64 word"
type_synonym u_int32_t = "32 word"
type_synonym u_int64_t = "64 word"
type_synonym 'a linked_ptr = "'a option"

text \<open>
  A \<open>std::map<k, v>\<close> is the list of its entries in iteration order, that is in ascending
  key order without repeated keys.  \<open>map_insert\<close> is \<open>std::map::insert\<close>: an entry whose key
  is already present is left alone.
\<close>

type_synonym ('k, 'v) std_map = "('k \<times> 'v) list"

fun map_insert :: "'k::linorder \<Rightarrow> 'v \<Rightarrow> ('k, 'v) std_map \<Rightarrow> ('k, 'v) std_map" where
  "map_insert k v [] = [(k, v)]"
| "map_insert k v ((k', v') # m) =
     (if k < k' then (k, v) # (k', v') # m
      else if k = k' then (k', v') # m
      else (k', v') # map_insert k v m)"

definition map_find :: "'k \<Rightarrow> ('k, 'v) std_map \<Rightarrow> 'v option" where
  "map_find k m = map_of m k"

text \<open>
  \<open>FileMap\<close> is a \<open>hash_map<u_int32_t, string>\<close> (a \<open>std::map\<close> under \<open>BSLR_NO_HASH_MAP\<close>).
  Its iteration order is not fixed by the program; the entries are kept in key order here.
  The program only inserts into it, looks keys up and iterates over all entries.
\<close>

type_synonym FileMap = "(u_int32_t, string) std_map"

subsection \<open>equals.h\<close>

text \<open>
  \<open>Equals\<close> on two \<open>linked_ptr\<close>s (and on two raw pointers) compares the objects when both
  pointers are set, and the pointers themselves otherwise: two NULL pointers are equal, a NULL
  pointer and a set one are not.
\<close>

definition Equals_ptr :: "('a \<Rightarrow> 'a \<Rightarrow> bool) \<Rightarrow> 'a linked_ptr \<Rightarrow> 'a linked_ptr \<Rightarrow> bool" where
  "Equals_ptr eq a b =
     (case a of
        Some x \<Rightarrow> (case b of Some y \<Rightarrow> eq x y | None \<Rightarrow> False)
      | None \<Rightarrow> (case b of Some y \<Rightarrow> False | None \<Rightarrow> True))"

text \<open>
  \<open>Equals\<close> on two maps: the sizes agree, and every key of \<open>a\<close> is found in \<open>b\<close> with a value
  that \<open>Equals\<close> the one in \<open>a\<close>.
\<close>

definition Equals_map :: "('v \<Rightarrow> 'v \<Rightarrow> bool) \<Rightarrow> ('k, 'v) std_map \<Rightarrow> ('k, 'v) std_map \<Rightarrow> bool" where
  "Equals_map eq a b =
     (length a = length b \<and>
      list_all (\<lambda>(k, v). case map_find k b of None \<Rightarrow> False | Some v' \<Rightarrow> eq v v') a)"

section \<open>RangeMap, AddressMap, ContainedRangeMap\<close>

subsection \<open>RangeMap\<close>

text \<open>
  Modelled from the spec: \<open>range_map.h\<close> and \<open>range_map-inl.h\<close> are not among the sources.
  The serializer in the sources fixes the representation: the member \<open>map_\<close> is a
  \<open>std::map\<close> from the high address of a range to a \<open>Range\<close>, which holds the base address
  \<open>base_\<close> and the entry \<open>entry_\<close>.  The range keyed by \<open>high\<close> with base \<open>base\<close> is the interval
  \<open>[base, high]\<close>, of size \<open>high - base + 1\<close>.
\<close>

type_synonym 'e Range = "MemAddr \<times> 'e"
type_synonym 'e RangeMap = "(MemAddr, 'e Range) std_map"

text \<open>
  Modelled from the spec: \<open>StoreRange(base, size, value)\<close> fails if \<open>size = 0\<close>, if
  \<open>base + size\<close> overflows the address type, or if the new interval intersects an interval
  already stored.  \<open>None\<close> is the failure (the map is left as it was).
\<close>

definition intersects :: "MemAddr \<Rightarrow> MemAddr \<Rightarrow> MemAddr \<times> 'e Range \<Rightarrow> bool" where
  "intersects base high r = (fst (snd r) \<le> high \<and> base \<le> fst r)"

definition RangeMap_StoreRange ::
  "MemAddr \<Rightarrow> MemAddr \<Rightarrow> 'e \<Rightarrow> 'e RangeMap \<Rightarrow> 'e RangeMap option" where
  "RangeMap_StoreRange base sz entry m =
     (if sz = 0 \<or> 2 ^ 64 \<le> uint base + uint sz then None
      else if list_ex (intersects base (base + sz - 1)) m then None
      else Some (map_insert (base + sz - 1) (base, entry) m))"

text \<open>
  Modelled from the spec: \<open>RetrieveRange(addr)\<close> returns the entry, base and size of the
  interval that contains \<open>addr\<close>, or nothing.
\<close>

definition RangeMap_RetrieveRange ::
  "'e RangeMap \<Rightarrow> MemAddr \<Rightarrow> ('e \<times> MemAddr \<times> MemAddr) option" where
  "RangeMap_RetrieveRange m addr =
     (case find (\<lambda>r. fst (snd r) \<le> addr \<and> addr \<le> fst r) m of
        None \<Rightarrow> None
      | Some (high, (base, entry)) \<Rightarrow> Some (entry, base, high - base + 1))"

text \<open>
  Modelled from the spec: \<open>RetrieveNearestRange(addr)\<close> returns the interval with the
  greatest base that is at most \<open>addr\<close>, whether \<open>addr\<close> lies inside it or not.
\<close>

fun greatest_base :: "MemAddr \<times> 'e Range \<Rightarrow> (MemAddr \<times> 'e Range) list \<Rightarrow> MemAddr \<times> 'e Range" where
  "greatest_base best [] = best"
| "greatest_base best (r # rs) =
     greatest_base (if fst (snd best) < fst (snd r) then r else best) rs"

definition RangeMap_RetrieveNearestRange ::
  "'e RangeMap \<Rightarrow> MemAddr \<Rightarrow> ('e \<times> MemAddr \<times> MemAddr) option" where
  "RangeMap_RetrieveNearestRange m addr =
     (case filter (\<lambda>r. fst (snd r) \<le> addr) m of
        [] \<Rightarrow> None
      | r # rs \<Rightarrow>
          (case greatest_base r rs of
             (high, (base, entry)) \<Rightarrow> Some (entry, base, high - base + 1)))"

text \<open>
  Modelled from the spec: \<open>RangeMap::Equals\<close> is pairwise structural equality over base,
  size and value, that is \<open>Equals\<close> of the two \<open>map_\<close> members, where two \<open>Range\<close>s are equal
  when their bases agree and their entries are \<open>Equals\<close>.
\<close>

definition RangeMap_Equals :: "('e \<Rightarrow> 'e \<Rightarrow> bool) \<Rightarrow> 'e RangeMap \<Rightarrow> 'e RangeMap \<Rightarrow> bool" where
  "RangeMap_Equals eq a b = Equals_map (\<lambda>r r'. fst r = fst r' \<and> eq (snd r) (snd r')) a b"

subsection \<open>AddressMap\<close>

text \<open>
  Modelled from the spec: \<open>address_map.h\<close> and \<open>address_map-inl.h\<close> are not among the
  sources.  The member \<open>map_\<close> is a \<open>std::map\<close> from address to entry.  \<open>Store\<close> fails on a
  key that is already present; \<open>Retrieve(addr)\<close> returns the entry with the greatest key
  that is at most \<open>addr\<close>, with that key; \<open>Equals\<close> is \<open>Equals\<close> of the \<open>map_\<close> members.
\<close>

type_synonym 'e AddressMap = "(MemAddr, 'e) std_map"

definition AddressMap_Store :: "MemAddr \<Rightarrow> 'e \<Rightarrow> 'e AddressMap \<Rightarrow> 'e AddressMap option" where
  "AddressMap_Store addr entry m =
     (case map_find addr m of
        Some e \<Rightarrow> None
      | None \<Rightarrow> Some (map_insert addr entry m))"

fun greatest_key :: "MemAddr \<times> 'e \<Rightarrow> (MemAddr \<times> 'e) list \<Rightarrow> MemAddr \<times> 'e" where
  "greatest_key best [] = best"
| "greatest_key best (r # rs) = greatest_key (if fst best < fst r then r else best) rs"

definition AddressMap_Retrieve :: "'e AddressMap \<Rightarrow> MemAddr \<Rightarrow> ('e \<times> MemAddr) option" where
  "AddressMap_Retrieve m addr =
     (case filter (\<lambda>r. fst r \<le> addr) m of
        [] \<Rightarrow> None
      | r # rs \<Rightarrow> (case greatest_key r rs of (key, entry) \<Rightarrow> Some (entry, key)))"

definition AddressMap_Equals :: "('e \<Rightarrow> 'e \<Rightarrow> bool) \<Rightarrow> 'e AddressMap \<Rightarrow> 'e AddressMap \<Rightarrow> bool" where
  "AddressMap_Equals eq a b = Equals_map eq a b"

subsection \<open>ContainedRangeMap\<close>

text \<open>
  Modelled from the spec: \<open>contained_range_map.h\<close> and \<open>contained_range_map-inl.h\<close> are not
  among the sources.  The serializer in the sources fixes the representation: a node has the
  members \<open>base_\<close>, \<open>entry_\<close> and \<open>map_\<close>, where \<open>map_\<close> is a pointer (NULL while the node has
  never had a child) to a \<open>std::map\<close> from the high address of a child to a pointer to the
  child node.  The root is a sentinel that covers the whole address space.
\<close>

datatype 'e ContainedRangeMap =
  CRM (crm_base: MemAddr) (crm_entry: 'e) (crm_map: "(MemAddr \<times> 'e ContainedRangeMap option) list option")

text \<open>
  Modelled from the spec: \<open>RetrieveRange(addr)\<close> descends from the root, at each level into
  the child whose interval contains \<open>addr\<close>, and returns the entry of the deepest such node;
  it returns nothing when no child of the root contains \<open>addr\<close>.
\<close>

fun CRM_RetrieveRange :: "'e ContainedRangeMap \<Rightarrow> MemAddr \<Rightarrow> 'e option"
  and CRM_RetrieveChildren :: "(MemAddr \<times> 'e ContainedRangeMap option) list \<Rightarrow> MemAddr \<Rightarrow> 'e option"
where
  "CRM_RetrieveRange (CRM b e None) addr = None"
| "CRM_RetrieveRange (CRM b e (Some cs)) addr = CRM_RetrieveChildren cs addr"
| "CRM_RetrieveChildren [] addr = None"
| "CRM_RetrieveChildren ((high, None) # cs) addr = CRM_RetrieveChildren cs addr"
| "CRM_RetrieveChildren ((high, Some c) # cs) addr =
     (if crm_base c \<le> addr \<and> addr \<le> high
      then (case CRM_RetrieveRange c addr of
              None \<Rightarrow> Some (crm_entry c)
            | Some e \<Rightarrow> Some e)
      else CRM_RetrieveChildren cs addr)"

text \<open>
  Modelled from the spec: \<open>StoreRange(base, size, value)\<close> rejects size 0 and inserts at the
  deepest level where the new range fits.  A range strictly inside a child goes into that
  child; a range that encloses children of the current level becomes their parent (the
  re-parenting policy); a range with the extent of an existing child, or one that overlaps
  a child without enclosing it, is rejected.  \<open>None\<close> is the failure.
\<close>

fun child_encloses :: "MemAddr \<times> 'e ContainedRangeMap option \<Rightarrow> MemAddr \<Rightarrow> MemAddr \<Rightarrow> bool" where
  "child_encloses (h, None) base high = False"
| "child_encloses (h, Some c) base high = (crm_base c \<le> base \<and> high \<le> h)"

fun child_within :: "MemAddr \<Rightarrow> MemAddr \<Rightarrow> MemAddr \<times> 'e ContainedRangeMap option \<Rightarrow> bool" where
  "child_within base high (h, None) = False"
| "child_within base high (h, Some c) = (base \<le> crm_base c \<and> h \<le> high)"

fun child_overlaps :: "MemAddr \<Rightarrow> MemAddr \<Rightarrow> MemAddr \<times> 'e ContainedRangeMap option \<Rightarrow> bool" where
  "child_overlaps base high (h, None) = False"
| "child_overlaps base high (h, Some c) = (crm_base c \<le> high \<and> base \<le> h)"

fun CRM_StoreRange ::
    "'e ContainedRangeMap \<Rightarrow> MemAddr \<Rightarrow> MemAddr \<Rightarrow> 'e \<Rightarrow> 'e ContainedRangeMap option"
  and CRM_StoreInChild ::
    "(MemAddr \<times> 'e ContainedRangeMap option) list \<Rightarrow> MemAddr \<Rightarrow> MemAddr \<Rightarrow> 'e \<Rightarrow>
     (MemAddr \<times> 'e ContainedRangeMap option) list option"
where
  "CRM_StoreRange (CRM b e None) base sz entry =
     (if sz = 0 then None
      else Some (CRM b e (Some [(base + sz - 1, Some (CRM base entry None))])))"
| "CRM_StoreRange (CRM b e (Some cs)) base sz entry =
     (if sz = 0 then None
      else if list_ex (\<lambda>ch. child_encloses ch base (base + sz - 1)) cs
      then map_option (\<lambda>cs'. CRM b e (Some cs')) (CRM_StoreInChild cs base sz entry)
      else if list_ex (\<lambda>ch. child_overlaps base (base + sz - 1) ch \<and>
                            \<not> child_within base (base + sz - 1) ch) cs
      then None
      else
        let high = base + sz - 1;
            inner = filter (child_within base high) cs;
            outer = filter (\<lambda>ch. \<not> child_within base high ch) cs;
            node = CRM base entry (if inner = [] then None else Some inner)
        in Some (CRM b e (Some (map_insert high (Some node) outer))))"
| "CRM_StoreInChild [] base sz entry = None"
| "CRM_StoreInChild ((h, None) # cs) base sz entry =
     map_option (\<lambda>cs'. (h, None) # cs') (CRM_StoreInChild cs base sz entry)"
| "CRM_StoreInChild ((h, Some c) # cs) base sz entry =
     (if crm_base c \<le> base \<and> base + sz - 1 \<le> h
      then (if crm_base c = base \<and> h = base + sz - 1 then None
            else map_option (\<lambda>c'. (h, Some c') # cs) (CRM_StoreRange c base sz entry))
      else map_option (\<lambda>cs'. (h, Some c) # cs') (CRM_StoreInChild cs base sz entry))"

text \<open>
  Modelled from the spec: \<open>ContainedRangeMap::Equals\<close> compares the bases, the entries and
  the child maps.  The child maps are compared as equals.h compares two maps, and the
  children, held by pointer, as it compares two pointers; a NULL \<open>map_\<close> equals only a
  NULL \<open>map_\<close>.
\<close>

fun CRM_Equals :: "('e \<Rightarrow> 'e \<Rightarrow> bool) \<Rightarrow> 'e ContainedRangeMap \<Rightarrow> 'e ContainedRangeMap \<Rightarrow> bool"
  and CRM_EqualsChildren ::
    "('e \<Rightarrow> 'e \<Rightarrow> bool) \<Rightarrow> (MemAddr \<times> 'e ContainedRangeMap option) list \<Rightarrow>
     (MemAddr \<times> 'e ContainedRangeMap option) list \<Rightarrow> bool"
where
  "CRM_Equals eq (CRM b1 e1 m1) (CRM b2 e2 m2) =
     (b1 = b2 \<and> eq e1 e2 \<and>
      (case m1 of
         None \<Rightarrow> (case m2 of None \<Rightarrow> True | Some cs2 \<Rightarrow> False)
       | Some cs1 \<Rightarrow>
           (case m2 of
              None \<Rightarrow> False
            | Some cs2 \<Rightarrow> length cs1 = length cs2 \<and> CRM_EqualsChildren eq cs1 cs2)))"
| "CRM_EqualsChildren eq [] cs2 = True"
| "CRM_EqualsChildren eq ((k, c) # cs1) cs2 =
     ((case map_find k cs2 of
         None \<Rightarrow> False
       | Some c' \<Rightarrow>
           (case c of
              None \<Rightarrow> (case c' of None \<Rightarrow> True | Some y \<Rightarrow> False)
            | Some x \<Rightarrow> (case c' of None \<Rightarrow> False | Some y \<Rightarrow> CRM_Equals eq x y)))
      \<and> CRM_EqualsChildren eq cs1 cs2)"

section \<open>The symbol records\<close>

record Line =
  line_address :: MemAddr
  line_size :: MemAddr
  source_file_id :: u_int32_t
  line_number :: u_int32_t

text \<open>\<open>Line::operator==\<close>.\<close>

definition Line_eq :: "Line \<Rightarrow> Line \<Rightarrow> bool" where
  "Line_eq a b =
     (line_address a = line_address b \<and> line_size a = line_size b \<and>
      source_file_id a = source_file_id b \<and> line_number a = line_number b)"

record Function =
  func_name :: string
  func_address :: MemAddr
  func_size :: MemAddr
  func_parameter_size :: u_int32_t
  lines :: "Line linked_ptr RangeMap"

definition Function_new :: "string \<Rightarrow> MemAddr \<Rightarrow> MemAddr \<Rightarrow> u_int32_t \<Rightarrow> Function" where
  "Function_new function_name function_address code_size set_parameter_size =
     \<lparr>func_name = function_name, func_address = function_address, func_size = code_size,
      func_parameter_size = set_parameter_size, lines = []\<rparr>"

text \<open>\<open>Equals(const Function &a, const Function &b)\<close>, as it is written in the source.\<close>

definition Function_Equals :: "Function \<Rightarrow> Function \<Rightarrow> bool" where
  "Function_Equals a b =
     (func_name a = func_name b \<and>
      func_address a = func_address b \<and>
      func_size a = func_size b \<and>
      RangeMap_Equals (Equals_ptr Line_eq) (lines a) (lines b))"

record PublicSymbol =
  pub_name :: string
  pub_address :: MemAddr
  pub_parameter_size :: u_int32_t

text \<open>\<open>PublicSymbol::operator==\<close>.\<close>

definition PublicSymbol_eq :: "PublicSymbol \<Rightarrow> PublicSymbol \<Rightarrow> bool" where
  "PublicSymbol_eq a b =
     (pub_name a = pub_name b \<and> pub_address a = pub_address b \<and>
      pub_parameter_size a = pub_parameter_size b)"

text \<open>
  Modelled from the spec: \<open>stack_frame_info.h\<close> is not among the sources.  The fields are
  those the serializer writes, in its order; \<open>valid\<close> is a bit mask, of which
  \<open>VALID_PARAMETER_SIZE\<close> is one bit.  A default-constructed object has an empty mask and
  zero fields; the object built from a STACK record has every bit of the mask set.
  \<open>CopyFrom\<close> copies every field; \<open>operator==\<close> compares every field.
\<close>

record StackFrameInfo =
  valid :: u_int32_t
  prolog_size :: u_int32_t
  epilog_size :: u_int32_t
  parameter_size :: u_int32_t
  saved_register_size :: u_int32_t
  local_size :: u_int32_t
  max_stack_size :: u_int32_t
  allocates_base_pointer :: bool
  program_string :: string

definition VALID_NONE :: u_int32_t where
  "VALID_NONE = 0"

definition VALID_PARAMETER_SIZE :: u_int32_t where
  "VALID_PARAMETER_SIZE = 1"

definition VALID_ALL :: u_int32_t where
  "VALID_ALL = - 1"

definition StackFrameInfo_default :: StackFrameInfo where
  "StackFrameInfo_default =
     \<lparr>valid = VALID_NONE, prolog_size = 0, epilog_size = 0, parameter_size = 0,
      saved_register_size = 0, local_size = 0, max_stack_size = 0,
      allocates_base_pointer = False, program_string = []\<rparr>"

definition StackFrameInfo_new ::
  "u_int32_t \<Rightarrow> u_int32_t \<Rightarrow> u_int32_t \<Rightarrow> u_int32_t \<Rightarrow> u_int32_t \<Rightarrow> u_int32_t \<Rightarrow> bool \<Rightarrow> string
   \<Rightarrow> StackFrameInfo" where
  "StackFrameInfo_new set_prolog_size set_epilog_size set_parameter_size
     set_saved_register_size set_local_size set_max_stack_size
     set_allocates_base_pointer set_program_string =
     \<lparr>valid = VALID_ALL, prolog_size = set_prolog_size, epilog_size = set_epilog_size,
      parameter_size = set_parameter_size, saved_register_size = set_saved_register_size,
      local_size = set_local_size, max_stack_size = set_max_stack_size,
      allocates_base_pointer = set_allocates_base_pointer,
      program_string = set_program_string\<rparr>"

definition CopyFrom :: "StackFrameInfo \<Rightarrow> StackFrameInfo" where
  "CopyFrom that =
     \<lparr>valid = valid that, prolog_size = prolog_size that, epilog_size = epilog_size that,
      parameter_size = parameter_size that, saved_register_size = saved_register_size that,
      local_size = local_size that, max_stack_size = max_stack_size that,
      allocates_base_pointer = allocates_base_pointer that,
      program_string = program_string that\<rparr>"

definition StackFrameInfo_eq :: "StackFrameInfo \<Rightarrow> StackFrameInfo \<Rightarrow> bool" where
  "StackFrameInfo_eq a b =
     (valid a = valid b \<and> prolog_size a = prolog_size b \<and> epilog_size a = epilog_size b \<and>
      parameter_size a = parameter_size b \<and>
      saved_register_size a = saved_register_size b \<and> local_size a = local_size b \<and>
      max_stack_size a = max_stack_size b \<and>
      allocates_base_pointer a = allocates_base_pointer b \<and>
      program_string a = program_string b)"

section \<open>Module\<close>

datatype StackInfoTypes =
  STACK_INFO_FPO | STACK_INFO_TRAP | STACK_INFO_TSS | STACK_INFO_STANDARD | STACK_INFO_FRAME_DATA

type_synonym StackInfoMap = "StackFrameInfo linked_ptr ContainedRangeMap"

text \<open>A default-constructed \<open>ContainedRangeMap\<close>: base 0, a NULL entry, no child map.\<close>

definition ContainedRangeMap_new :: StackInfoMap where
  "ContainedRangeMap_new = CRM 0 None None"

record Module =
  mod_name :: string
  mod_files :: FileMap
  mod_functions :: "Function linked_ptr RangeMap"
  mod_public_symbols :: "PublicSymbol linked_ptr AddressMap"
  mod_stack_info :: "StackInfoTypes \<Rightarrow> StackInfoMap"

definition Module_new :: "string \<Rightarrow> Module" where
  "Module_new name =
     \<lparr>mod_name = name, mod_files = [], mod_functions = [], mod_public_symbols = [],
      mod_stack_info = (\<lambda>t. ContainedRangeMap_new)\<rparr>"

text \<open>\<open>Module::Equals\<close>.\<close>

definition Module_Equals :: "Module \<Rightarrow> Module \<Rightarrow> bool" where
  "Module_Equals this other =
     (Equals_map (=) (mod_files this) (mod_files other) \<and>
      RangeMap_Equals (Equals_ptr Function_Equals) (mod_functions this) (mod_functions other) \<and>
      AddressMap_Equals (Equals_ptr PublicSymbol_eq)
        (mod_public_symbols this) (mod_public_symbols other) \<and>
      CRM_Equals (Equals_ptr StackFrameInfo_eq)
        (mod_stack_info this STACK_INFO_FPO) (mod_stack_info other STACK_INFO_FPO) \<and>
      CRM_Equals (Equals_ptr StackFrameInfo_eq)
        (mod_stack_info this STACK_INFO_TRAP) (mod_stack_info other STACK_INFO_TRAP) \<and>
      CRM_Equals (Equals_ptr StackFrameInfo_eq)
        (mod_stack_info this STACK_INFO_TSS) (mod_stack_info other STACK_INFO_TSS) \<and>
      CRM_Equals (Equals_ptr StackFrameInfo_eq)
        (mod_stack_info this STACK_INFO_STANDARD) (mod_stack_info other STACK_INFO_STANDARD) \<and>
      CRM_Equals (Equals_ptr StackFrameInfo_eq)
        (mod_stack_info this STACK_INFO_FRAME_DATA) (mod_stack_info other STACK_INFO_FRAME_DATA))"

section \<open>Address lookup\<close>

text \<open>
  Modelled from the spec: \<open>stack_frame.h\<close> and \<open>code_module.h\<close> are not among the sources.
  A frame carries the instruction address and a pointer to its code module, which has a
  code file and a base address; the lookup writes the five remaining fields.
\<close>

record CodeModule =
  code_file :: string
  base_address :: MemAddr

record StackFrame =
  instruction :: MemAddr
  frame_module :: "CodeModule option"
  function_name :: string
  function_base :: MemAddr
  source_file_name :: string
  source_line :: u_int32_t
  source_line_base :: MemAddr

text \<open>
  \<open>Module::LookupAddress\<close>, in the order of the source.  The result is the frame as the
  function leaves it and the returned pointer (\<open>None\<close> for NULL); the outer \<open>None\<close> is the
  dereference of a NULL pointer (\<open>frame->module\<close>, \<open>func\<close>, \<open>line\<close> or \<open>public_symbol\<close>).
\<close>

text \<open>The probe of \<open>stack_info_\<close> and the copy into \<open>frame_info\<close>.\<close>

definition probe_stack_info :: "Module \<Rightarrow> MemAddr \<Rightarrow> StackFrameInfo option" where
  "probe_stack_info m address =
     (let retrieved_info =
            (case CRM_RetrieveRange (mod_stack_info m STACK_INFO_FRAME_DATA) address of
               Some info \<Rightarrow> info
             | None \<Rightarrow>
                 (case CRM_RetrieveRange (mod_stack_info m STACK_INFO_FPO) address of
                    Some info \<Rightarrow> info
                  | None \<Rightarrow> None))
      in (case retrieved_info of
            None \<Rightarrow> None
          | Some info \<Rightarrow> Some (CopyFrom info)))"

text \<open>The last block: without STACK data the parameter size of the FUNC or PUBLIC line is used.\<close>

definition synthesize_info :: "StackFrameInfo option \<Rightarrow> u_int32_t \<Rightarrow> StackFrameInfo option" where
  "synthesize_info frame_info psize =
     (case frame_info of
        Some info \<Rightarrow> Some info
      | None \<Rightarrow>
          Some (StackFrameInfo_default
                 \<lparr>parameter_size := psize,
                  valid := valid StackFrameInfo_default OR VALID_PARAMETER_SIZE\<rparr>))"

text \<open>The branch taken when the address lies within the nearest function.\<close>

definition fill_from_function ::
  "Module \<Rightarrow> CodeModule \<Rightarrow> MemAddr \<Rightarrow> Function linked_ptr \<Rightarrow> MemAddr \<Rightarrow> StackFrame \<Rightarrow>
   StackFrameInfo option \<Rightarrow> (StackFrame \<times> StackFrameInfo option) option" where
  "fill_from_function m cm address func fn_base frame frame_info =
     (case func of
        None \<Rightarrow> None
      | Some f \<Rightarrow>
          let frame1 = frame\<lparr>function_name := func_name f,
                             function_base := base_address cm + fn_base\<rparr>
          in (case RangeMap_RetrieveRange (lines f) address of
                None \<Rightarrow> Some (frame1, synthesize_info frame_info (func_parameter_size f))
              | Some (None, line_base, line_sz) \<Rightarrow> None
              | Some (Some l, line_base, line_sz) \<Rightarrow>
                  let frame2 =
                        (case map_find (source_file_id l) (mod_files m) of
                           None \<Rightarrow> frame1
                         | Some file \<Rightarrow> frame1\<lparr>source_file_name := file\<rparr>)
                  in Some (frame2\<lparr>source_line := line_number l,
                                  source_line_base := base_address cm + line_base\<rparr>,
                           synthesize_info frame_info (func_parameter_size f))))"

text \<open>The branch taken when a public symbol is used.\<close>

definition fill_from_public ::
  "CodeModule \<Rightarrow> PublicSymbol linked_ptr \<Rightarrow> MemAddr \<Rightarrow> StackFrame \<Rightarrow>
   StackFrameInfo option \<Rightarrow> (StackFrame \<times> StackFrameInfo option) option" where
  "fill_from_public cm public_symbol public_address frame frame_info =
     (case public_symbol of
        None \<Rightarrow> None
      | Some ps \<Rightarrow>
          Some (frame\<lparr>function_name := pub_name ps,
                      function_base := base_address cm + public_address\<rparr>,
                synthesize_info frame_info (pub_parameter_size ps)))"

text \<open>
  When \<open>RetrieveNearestRange\<close> finds nothing, \<open>func\<close> stays NULL and \<open>function_base\<close> and
  \<open>function_size\<close> are not written; they are not read either, since \<open>!func.get()\<close> is
  tested first, and stand as 0 here (\<open>fn_base\<close>, \<open>fn_size\<close>).  The same holds for \<open>public_address\<close>.
\<close>

definition LookupAddress ::
  "Module \<Rightarrow> StackFrame \<Rightarrow> (StackFrame \<times> StackFrameInfo option) option" where
  "LookupAddress m frame =
     (case frame_module frame of
        None \<Rightarrow> None
      | Some cm \<Rightarrow>
          let address = instruction frame - base_address cm;
              frame_info = probe_stack_info m address;
              nearest = RangeMap_RetrieveNearestRange (mod_functions m) address;
              func = (case nearest of None \<Rightarrow> None | Some (f, b, s) \<Rightarrow> f);
              fn_base = (case nearest of None \<Rightarrow> 0 | Some (f, b, s) \<Rightarrow> b);
              fn_size = (case nearest of None \<Rightarrow> 0 | Some (f, b, s) \<Rightarrow> s);
              public = AddressMap_Retrieve (mod_public_symbols m) address;
              public_symbol = (case public of None \<Rightarrow> None | Some (e, a) \<Rightarrow> e);
              public_address = (case public of None \<Rightarrow> 0 | Some (e, a) \<Rightarrow> a)
          in if nearest \<noteq> None \<and> fn_base \<le> address \<and>
                address < fn_base + fn_size
             then fill_from_function m cm address func fn_base frame frame_info
             else if public \<noteq> None \<and>
                     (func = None \<or> fn_base + fn_size < public_address)
             then fill_from_public cm public_symbol public_address frame frame_info
             else Some (frame, frame_info))"

section \<open>Reading a symbol file\<close>

subsection \<open>The C library\<close>

text \<open>
  A C string is the part of a buffer before its first NUL character.  \<open>strtok_r\<close> skips
  leading delimiters, returns NULL when nothing is left, and otherwise returns the token
  that ends before the next delimiter, with the rest of the string after that delimiter as
  the saved position.
\<close>

definition c_str :: "string \<Rightarrow> string" where
  "c_str buffer = takeWhile (\<lambda>c. c \<noteq> CHR 0x00) buffer"

definition strtok_r :: "string \<Rightarrow> string \<Rightarrow> (string \<times> string) option" where
  "strtok_r str delim =
     (let s = dropWhile (\<lambda>c. c \<in> set delim) str
      in if s = [] then None
         else Some (takeWhile (\<lambda>c. c \<notin> set delim) s,
                    drop 1 (dropWhile (\<lambda>c. c \<notin> set delim) s)))"

text \<open>
  \<open>strtoull\<close>, \<open>strtoul\<close>, \<open>strtol\<close> and \<open>atoi\<close>, for \<open>long\<close> of 64 bits and \<open>int\<close> of 32 bits:
  white space is skipped, a sign is read, base 16 allows a \<open>0x\<close> prefix, the digits are read
  up to the first character that is not one, no digit at all gives 0, and a value out of
  range gives the limit of the result type.  A result assigned to an \<open>int\<close> or to a
  \<open>u_int32_t\<close> keeps its low 32 bits.
\<close>

definition isspace :: "char \<Rightarrow> bool" where
  "isspace c = (c \<in> set [CHR '' '', CHR 0x09, CHR 0x0A, CHR 0x0B, CHR 0x0C, CHR 0x0D])"

definition digit_value :: "int \<Rightarrow> char \<Rightarrow> int option" where
  "digit_value base c =
     (let n = (of_char c :: int);
          d = (if 48 \<le> n \<and> n \<le> 57 then Some (n - 48)
               else if 97 \<le> n \<and> n \<le> 122 then Some (n - 87)
               else if 65 \<le> n \<and> n \<le> 90 then Some (n - 55)
               else None)
      in case d of None \<Rightarrow> None | Some v \<Rightarrow> if v < base then Some v else None)"

fun digits_value :: "int \<Rightarrow> int \<Rightarrow> string \<Rightarrow> int" where
  "digits_value base acc [] = acc"
| "digits_value base acc (c # cs) =
     (case digit_value base c of
        None \<Rightarrow> acc
      | Some d \<Rightarrow> digits_value base (acc * base + d) cs)"

definition strip_prefix :: "int \<Rightarrow> string \<Rightarrow> string" where
  "strip_prefix base s =
     (case s of
        c0 # c1 # c2 # cs \<Rightarrow>
          (if base = 16 \<and> c0 = CHR ''0'' \<and> (c1 = CHR ''x'' \<or> c1 = CHR ''X'') \<and>
              digit_value 16 c2 \<noteq> None
           then c2 # cs else s)
      | _ \<Rightarrow> s)"

definition scan_number :: "int \<Rightarrow> string \<Rightarrow> bool \<times> int" where
  "scan_number base str =
     (let s = dropWhile isspace str;
          negative = (case s of c # cs \<Rightarrow> c = CHR ''-'' | [] \<Rightarrow> False);
          s1 = (case s of c # cs \<Rightarrow> if c = CHR ''-'' \<or> c = CHR ''+'' then cs else s | [] \<Rightarrow> s)
      in (negative, digits_value base 0 (strip_prefix base s1)))"

definition strtoull :: "string \<Rightarrow> int \<Rightarrow> u_int64_t" where
  "strtoull str base =
     (case scan_number base str of
        (negative, n) \<Rightarrow>
          if 2 ^ 64 \<le> n then - 1
          else if negative then - word_of_int n else word_of_int n)"

definition strtoul :: "string \<Rightarrow> int \<Rightarrow> u_int64_t" where
  "strtoul str base = strtoull str base"

definition strtol :: "string \<Rightarrow> int \<Rightarrow> int" where
  "strtol str base =
     (case scan_number base str of
        (negative, n) \<Rightarrow>
          if negative then max (- n) (- (2 ^ 63)) else min n (2 ^ 63 - 1))"

definition atoi :: "string \<Rightarrow> 32 word" where
  "atoi str = word_of_int (strtol str 10)"

subsection \<open>Tokenize\<close>

text \<open>
  The \<open>while\<close> loop of \<open>Tokenize\<close>: \<open>token\<close> is the pending token (\<open>None\<close> for NULL), \<open>save\<close> the
  saved position of \<open>strtok_r\<close>.  \<open>--remaining\<close> is evaluated only when \<open>token\<close> is not NULL.
  The loop returns the tokens, \<open>remaining\<close> and the saved position.
\<close>

definition token_delims :: string where
  "token_delims = [CHR '' '', CHR 0x0D, CHR 0x0A]"

definition line_delims :: string where
  "line_delims = [CHR 0x0D, CHR 0x0A]"

function Tokenize_loop ::
  "string option \<Rightarrow> string \<Rightarrow> int \<Rightarrow> string list \<Rightarrow> string list \<times> int \<times> string" where
  "Tokenize_loop token save remaining tokens =
     (case token of
        None \<Rightarrow> (tokens, remaining, save)
      | Some t \<Rightarrow>
          if 0 < remaining - 1
          then
            (if 1 < remaining - 1
             then (case strtok_r save token_delims of
                     None \<Rightarrow> Tokenize_loop None [] (remaining - 1) (tokens @ [t])
                   | Some (t', save') \<Rightarrow>
                       Tokenize_loop (Some t') save' (remaining - 1) (tokens @ [t]))
             else Tokenize_loop (Some t) save (remaining - 1) (tokens @ [t]))
          else (tokens, remaining - 1, save))"
  by pat_completeness auto
termination
  by (relation "measure (\<lambda>(token, save, remaining, tokens). nat remaining)") auto

declare Tokenize_loop.simps [simp del]

text \<open>
  \<open>Tokenize\<close> returns the tokens and whether there are exactly \<open>max_tokens\<close> of them.  The
  test \<open>!remaining > 0\<close> of the source is \<open>(!remaining) > 0\<close>, that is \<open>remaining == 0\<close>.
\<close>

definition Tokenize :: "string \<Rightarrow> int \<Rightarrow> bool \<times> string list" where
  "Tokenize line max_tokens =
     (let first = strtok_r line token_delims;
          token = (case first of None \<Rightarrow> None | Some (t, sv) \<Rightarrow> Some t);
          save = (case first of None \<Rightarrow> [] | Some (t, sv) \<Rightarrow> sv)
      in case Tokenize_loop token save max_tokens [] of
           (tokens, remaining, save') \<Rightarrow>
             let tokens' =
                   (if remaining = 0
                    then (case strtok_r save' line_delims of
                            None \<Rightarrow> tokens
                          | Some (t, sv) \<Rightarrow> tokens @ [t])
                    else tokens)
             in (int (length tokens') = max_tokens, tokens'))"

subsection \<open>The record parsers\<close>

text \<open>
  Each parser receives the line as a C string.  A parser that returns \<open>bool\<close> in the source
  returns the updated module here, \<open>None\<close> for \<open>false\<close>; one that returns a pointer returns
  the object, \<open>None\<close> for NULL.  A conversion to \<open>int\<close> or \<open>u_int32_t\<close> is \<open>ucast\<close>, and an
  \<open>int\<close> is negative when its sign bit is set.
\<close>

definition ParseFile :: "string \<Rightarrow> Module \<Rightarrow> Module option" where
  "ParseFile file_line m =
     (case Tokenize (drop 5 file_line) 2 of
        (ok, tokens) \<Rightarrow>
          if \<not> ok then None
          else
            let index = atoi (tokens ! 0)
            in if sint index < 0 then None
               else Some (m\<lparr>mod_files := map_insert index (tokens ! 1) (mod_files m)\<rparr>))"

definition ParseFunction :: "string \<Rightarrow> Function option" where
  "ParseFunction function_line =
     (case Tokenize (drop 5 function_line) 4 of
        (ok, tokens) \<Rightarrow>
          if \<not> ok then None
          else
            let address = strtoull (tokens ! 0) 16;
                sz = strtoull (tokens ! 1) 16;
                stack_param_size = (ucast (strtoull (tokens ! 2) 16) :: 32 word);
                name = tokens ! 3
            in Some (Function_new name address sz stack_param_size))"

definition ParseLine :: "string \<Rightarrow> Line option" where
  "ParseLine line_line =
     (case Tokenize line_line 4 of
        (ok, tokens) \<Rightarrow>
          if \<not> ok then None
          else
            let address = strtoull (tokens ! 0) 16;
                sz = strtoull (tokens ! 1) 16;
                line_num = atoi (tokens ! 2);
                source_file = atoi (tokens ! 3)
            in if sint line_num \<le> 0 then None
               else Some \<lparr>line_address = address, line_size = sz,
                          source_file_id = source_file, line_number = line_num\<rparr>)"

definition ParsePublicSymbol :: "string \<Rightarrow> Module \<Rightarrow> Module option" where
  "ParsePublicSymbol public_line m =
     (case Tokenize (drop 7 public_line) 3 of
        (ok, tokens) \<Rightarrow>
          if \<not> ok then None
          else
            let address = strtoull (tokens ! 0) 16;
                stack_param_size = (ucast (strtoull (tokens ! 1) 16) :: 32 word);
                name = tokens ! 2
            in if address = 0 then Some m
               else
                 (case AddressMap_Store address
                         (Some \<lparr>pub_name = name, pub_address = address,
                                pub_parameter_size = stack_param_size\<rparr>)
                         (mod_public_symbols m) of
                    None \<Rightarrow> None
                  | Some symbols \<Rightarrow> Some (m\<lparr>mod_public_symbols := symbols\<rparr>)))"

text \<open>The slot of \<open>stack_info_\<close> for a type between 0 and \<open>STACK_INFO_LAST - 1\<close>.\<close>

definition stack_info_type :: "int \<Rightarrow> StackInfoTypes" where
  "stack_info_type t =
     (if t = 0 then STACK_INFO_FPO
      else if t = 1 then STACK_INFO_TRAP
      else if t = 2 then STACK_INFO_TSS
      else if t = 3 then STACK_INFO_STANDARD
      else STACK_INFO_FRAME_DATA)"

text \<open>
  \<open>ParseStackInfo\<close> ignores the result of \<open>StoreRange\<close>: a rejected range leaves the slot as
  it was.
\<close>

definition ParseStackInfo :: "string \<Rightarrow> Module \<Rightarrow> Module option" where
  "ParseStackInfo stack_info_line m =
     (case Tokenize (drop 6 stack_info_line) 12 of
        (ok, tokens) \<Rightarrow>
          if \<not> ok then None
          else if tokens ! 0 \<noteq> ''WIN'' then None
          else
            let type = sint (word_of_int (strtol (tokens ! 1) 16) :: 32 word)
            in if type < 0 \<or> 4 < type then None
               else
                 let rva = strtoull (tokens ! 2) 16;
                     code_size = strtoull (tokens ! 3) 16;
                     prolog = (ucast (strtoul (tokens ! 4) 16) :: 32 word);
                     epilog = (ucast (strtoul (tokens ! 5) 16) :: 32 word);
                     psize = (ucast (strtoul (tokens ! 6) 16) :: 32 word);
                     saved_regs = (ucast (strtoul (tokens ! 7) 16) :: 32 word);
                     locals = (ucast (strtoul (tokens ! 8) 16) :: 32 word);
                     max_stack = (ucast (strtoul (tokens ! 9) 16) :: 32 word);
                     has_program_string = (ucast (strtoul (tokens ! 10) 16) :: 32 word);
                     prog = (if has_program_string \<noteq> 0 then tokens ! 11 else []);
                     allocates =
                       (if has_program_string \<noteq> 0 then (0 :: 32 word)
                        else ucast (strtoul (tokens ! 11) 16));
                     info = StackFrameInfo_new prolog epilog psize saved_regs locals max_stack
                              (allocates \<noteq> 0) prog;
                     slot = stack_info_type type
                 in (case CRM_StoreRange (mod_stack_info m slot) rva code_size (Some info) of
                       None \<Rightarrow> Some m
                     | Some crm \<Rightarrow>
                         Some (m\<lparr>mod_stack_info := (mod_stack_info m)(slot := crm)\<rparr>)))"

subsection \<open>LoadMap\<close>

text \<open>
  \<open>fgets(buffer, 8192, f)\<close> reads at most 8191 characters and stops after a newline;
  \<open>read_lines\<close> is the sequence of buffers that the successive calls return until the end
  of the file.
\<close>

fun fgets :: "nat \<Rightarrow> string \<Rightarrow> string \<times> string" where
  "fgets 0 s = ([], s)"
| "fgets (Suc n) [] = ([], [])"
| "fgets (Suc n) (c # s) =
     (if c = CHR 0x0A then ([c], s)
      else (case fgets n s of (l, r) \<Rightarrow> (c # l, r)))"

function read_lines :: "string \<Rightarrow> string list" where
  "read_lines s =
     (if s = [] then []
      else (case fgets 8191 s of (l, r) \<Rightarrow> l # read_lines r))"
  by pat_completeness auto
termination
proof (relation "measure length")
  show "wf (measure length)" by simp
next
  fix s :: string and l r
  assume ne: "s \<noteq> []" and lr: "(l, r) = fgets 8191 s"
  have le: "length (snd (fgets n t)) \<le> length t" for n t
    by (induction n t rule: fgets.induct) (auto split: prod.splits)
  have less: "length (snd (fgets (Suc n) (c # t))) < length (c # t)" for n c t
    using le [of n t] by (auto split: prod.splits)
  obtain c s' where s: "s = c # s'" using ne by (cases s) auto
  have "length (snd (fgets (Suc 8190) s)) < length s"
    unfolding s by (rule less)
  then have "length (snd (fgets 8191 s)) < length s" by simp
  then show "(r, s) \<in> measure length" using lr by (metis in_measure snd_conv)
qed

declare read_lines.simps [simp del]

text \<open>
  The current function \<open>cur_func\<close> is a \<open>linked_ptr\<close> that shares its object with the entry
  of \<open>functions_\<close> when \<open>StoreRange\<close> accepted the function.  The state of the loop holds the
  object and whether it is shared; a line stored through \<open>cur_func\<close> is then stored in the
  entry of \<open>functions_\<close> too, which is found under the high address of the function.
\<close>

type_synonym cur_func = "(Function \<times> bool) option"

definition update_function :: "Function \<Rightarrow> Function linked_ptr RangeMap \<Rightarrow> Function linked_ptr RangeMap" where
  "update_function f fs =
     map (\<lambda>(high, r). if high = func_address f + func_size f - 1 then (high, (fst r, Some f))
                        else (high, r)) fs"

text \<open>One pass of the body of the \<open>while\<close> loop, on the buffer that \<open>fgets\<close> returned.\<close>

definition LoadMap_line :: "string \<Rightarrow> Module \<times> cur_func \<Rightarrow> (Module \<times> cur_func) option" where
  "LoadMap_line buffer st =
     (let buf = c_str buffer; m = fst st; cur = snd st
      in if take 5 buf = ''FILE '' then
           (case ParseFile buf m of None \<Rightarrow> None | Some m' \<Rightarrow> Some (m', cur))
         else if take 6 buf = ''STACK '' then
           (case ParseStackInfo buf m of None \<Rightarrow> None | Some m' \<Rightarrow> Some (m', cur))
         else if take 5 buf = ''FUNC '' then
           (case ParseFunction buf of
              None \<Rightarrow> None
            | Some f \<Rightarrow>
                (case RangeMap_StoreRange (func_address f) (func_size f) (Some f)
                        (mod_functions m) of
                   None \<Rightarrow> Some (m, Some (f, False))
                 | Some fs \<Rightarrow> Some (m\<lparr>mod_functions := fs\<rparr>, Some (f, True))))
         else if take 7 buf = ''PUBLIC '' then
           (case ParsePublicSymbol buf m of None \<Rightarrow> None | Some m' \<Rightarrow> Some (m', None))
         else if take 7 buf = ''MODULE '' then Some (m, cur)
         else
           (case cur of
              None \<Rightarrow> None
            | Some (f, shared) \<Rightarrow>
                (case ParseLine buf of
                   None \<Rightarrow> None
                 | Some l \<Rightarrow>
                     (case RangeMap_StoreRange (line_address l) (line_size l) (Some l)
                             (lines f) of
                        None \<Rightarrow> Some (m, cur)
                      | Some ls \<Rightarrow>
                          let f' = f\<lparr>lines := ls\<rparr>
                          in Some (if shared
                                   then m\<lparr>mod_functions := update_function f' (mod_functions m)\<rparr>
                                   else m,
                                   Some (f', shared))))))"

fun LoadMap_loop :: "string list \<Rightarrow> Module \<times> cur_func \<Rightarrow> Module option" where
  "LoadMap_loop [] st = Some (fst st)"
| "LoadMap_loop (buffer # rest) st =
     (case LoadMap_line buffer st of
        None \<Rightarrow> None
      | Some st' \<Rightarrow> LoadMap_loop rest st')"

text \<open>
  \<open>Module::LoadMap\<close>.  The file system is a function from a path to the contents of the
  file, \<open>None\<close> when \<open>fopen\<close> fails.  \<open>None\<close> is the result \<open>false\<close>.
\<close>

definition LoadMap :: "(string \<Rightarrow> string option) \<Rightarrow> string \<Rightarrow> Module \<Rightarrow> Module option" where
  "LoadMap fs map_file m =
     (case fs map_file of
        None \<Rightarrow> None
      | Some contents \<Rightarrow> LoadMap_loop (read_lines contents) (m, None))"

section \<open>ModuleSerializer\<close>

text \<open>
  A stream is the sequence of its characters.  Writing appends; a read takes characters
  from the front and returns the value with the rest of the stream.  A read that finds
  fewer characters than it asks for is \<open>None\<close>: the stream has failed (an exception when the
  stream has exceptions enabled, as in \<open>ModuleRoundTripTest\<close>; otherwise the variables read
  hold no defined value).
\<close>

type_synonym 'a reader = "string \<Rightarrow> ('a \<times> string) option"

subsection \<open>Integers\<close>

text \<open>
  An integer is written as the bytes of its object representation, in the byte order of
  the host; the order taken here is least significant byte first.
\<close>

fun le_bytes :: "nat \<Rightarrow> int \<Rightarrow> string" where
  "le_bytes 0 n = []"
| "le_bytes (Suc k) n = char_of n # le_bytes k (n div 256)"

fun le_value :: "string \<Rightarrow> int" where
  "le_value [] = 0"
| "le_value (c # cs) = of_char c + 256 * le_value cs"

definition Write_u32 :: "u_int32_t \<Rightarrow> string" where
  "Write_u32 data = le_bytes 4 (uint data)"

definition Write_u64 :: "u_int64_t \<Rightarrow> string" where
  "Write_u64 data = le_bytes 8 (uint data)"

definition Read_u32 :: "u_int32_t reader" where
  "Read_u32 s =
     (if length s < 4 then None else Some (word_of_int (le_value (take 4 s)), drop 4 s))"

definition Read_u64 :: "u_int64_t reader" where
  "Read_u64 s =
     (if length s < 8 then None else Some (word_of_int (le_value (take 8 s)), drop 8 s))"

subsection \<open>Strings\<close>

text \<open>
  \<open>Write(const string &)\<close>: the empty string is a zero length; any other string is its size
  plus the padding, its characters, and one to four NUL characters of padding.
\<close>

definition Write_string :: "string \<Rightarrow> string" where
  "Write_string data =
     (if data = [] then Write_u32 0
      else
        let extra = 4 - length data mod 4
        in Write_u32 (of_nat (length data) + of_nat extra) @ data @ replicate extra (CHR 0x00))"

text \<open>
  \<open>Read(string &data)\<close>: a zero length leaves \<open>data\<close> as it is; otherwise \<open>length\<close> characters
  are read into a vector and \<open>data\<close> becomes the C string at its start.  A vector without a
  NUL character would be read past its end; that is \<open>None\<close> too.
\<close>

definition Read_string :: "string \<Rightarrow> string reader" where
  "Read_string data s =
     do {
       (len, s1) \<leftarrow> Read_u32 s;
       if len = 0 then Some (data, s1)
       else if length s1 < unat len then None
       else if CHR 0x00 \<notin> set (take (unat len) s1) then None
       else Some (c_str (take (unat len) s1), drop (unat len) s1)
     }"

subsection \<open>Pointers and maps\<close>

text \<open>\<open>Write(const linked_ptr<T> &)\<close> and \<open>Write(const ContainedRangeMap * const &)\<close>.\<close>

definition Write_ptr :: "('a \<Rightarrow> string) \<Rightarrow> 'a option \<Rightarrow> string" where
  "Write_ptr write data =
     (case data of
        Some x \<Rightarrow> Write_u32 1 @ write x
      | None \<Rightarrow> Write_u32 0)"

text \<open>\<open>Read(linked_ptr<T> &data)\<close>: without the marker 1, \<open>data\<close> is left as it is.\<close>

definition Read_linked_ptr :: "'a reader \<Rightarrow> 'a linked_ptr \<Rightarrow> 'a linked_ptr reader" where
  "Read_linked_ptr read data s =
     do {
       (marker, s1) \<leftarrow> Read_u32 s;
       if marker = 1
       then do { (thing, s2) \<leftarrow> read s1; Some (Some thing, s2) }
       else Some (data, s1)
     }"

text \<open>
  \<open>Write(const map<k, d> &)\<close> and \<open>Read(map<k, v> &data)\<close> (and the same two functions for
  \<open>hash_map\<close>): the number of entries as \<open>u_int32_t\<close>, then every key and value.  The loop
  of \<open>Read\<close> reads a fresh key and value \<open>length\<close> times and inserts them.
\<close>

definition Write_map :: "('k \<Rightarrow> string) \<Rightarrow> ('v \<Rightarrow> string) \<Rightarrow> ('k, 'v) std_map \<Rightarrow> string" where
  "Write_map write_key write_value data =
     Write_u32 (of_nat (length data)) @
     concat (map (\<lambda>(k, v). write_key k @ write_value v) data)"

fun Read_entries ::
  "nat \<Rightarrow> ('k::linorder) reader \<Rightarrow> 'v reader \<Rightarrow> ('k, 'v) std_map \<Rightarrow> ('k, 'v) std_map reader" where
  "Read_entries 0 read_key read_value data s = Some (data, s)"
| "Read_entries (Suc n) read_key read_value data s =
     do {
       (key, s1) \<leftarrow> read_key s;
       (value, s2) \<leftarrow> read_value s1;
       Read_entries n read_key read_value (map_insert key value data) s2
     }"

definition Read_map ::
  "('k::linorder) reader \<Rightarrow> 'v reader \<Rightarrow> ('k, 'v) std_map \<Rightarrow> ('k, 'v) std_map reader" where
  "Read_map read_key read_value data s =
     do {
       (len, s1) \<leftarrow> Read_u32 s;
       Read_entries (unat len) read_key read_value data s1
     }"

text \<open>
  \<open>Write(const RangeMap &)\<close> and \<open>Read(RangeMap &)\<close>: the number of entries, then for every
  entry the key of \<open>map_\<close>, the base of the \<open>Range\<close> and its entry.
\<close>

definition Write_Range :: "('e \<Rightarrow> string) \<Rightarrow> 'e Range \<Rightarrow> string" where
  "Write_Range write_entry data = Write_u64 (fst data) @ write_entry (snd data)"

definition Read_Range :: "'e reader \<Rightarrow> 'e Range reader" where
  "Read_Range read_entry s =
     do {
       (range_address, s1) \<leftarrow> Read_u64 s;
       (entry, s2) \<leftarrow> read_entry s1;
       Some ((range_address, entry), s2)
     }"

definition Write_RangeMap :: "('e \<Rightarrow> string) \<Rightarrow> 'e RangeMap \<Rightarrow> string" where
  "Write_RangeMap write_entry data = Write_map Write_u64 (Write_Range write_entry) data"

definition Read_RangeMap :: "'e reader \<Rightarrow> 'e RangeMap \<Rightarrow> 'e RangeMap reader" where
  "Read_RangeMap read_entry data s = Read_map Read_u64 (Read_Range read_entry) data s"

subsection \<open>The symbol records\<close>

definition Write_Line :: "Line \<Rightarrow> string" where
  "Write_Line data =
     Write_u64 (line_address data) @ Write_u64 (line_size data) @
     Write_u32 (source_file_id data) @ Write_u32 (line_number data)"

definition Read_Line :: "Line reader" where
  "Read_Line s =
     do {
       (address, s1) \<leftarrow> Read_u64 s;
       (sz, s2) \<leftarrow> Read_u64 s1;
       (file_id, s3) \<leftarrow> Read_u32 s2;
       (line_num, s4) \<leftarrow> Read_u32 s3;
       Some (\<lparr>line_address = address, line_size = sz, source_file_id = file_id,
              line_number = line_num\<rparr>, s4)
     }"

definition Write_Function :: "Function \<Rightarrow> string" where
  "Write_Function data =
     Write_string (func_name data) @ Write_u64 (func_address data) @
     Write_u64 (func_size data) @ Write_u32 (func_parameter_size data) @
     Write_RangeMap (Write_ptr Write_Line) (lines data)"

definition Read_Function :: "Function reader" where
  "Read_Function s =
     do {
       (name, s1) \<leftarrow> Read_string [] s;
       (address, s2) \<leftarrow> Read_u64 s1;
       (sz, s3) \<leftarrow> Read_u64 s2;
       (psize, s4) \<leftarrow> Read_u32 s3;
       (ls, s5) \<leftarrow> Read_RangeMap (Read_linked_ptr Read_Line None) [] s4;
       Some ((Function_new name address sz psize)\<lparr>lines := ls\<rparr>, s5)
     }"

definition Write_PublicSymbol :: "PublicSymbol \<Rightarrow> string" where
  "Write_PublicSymbol data =
     Write_string (pub_name data) @ Write_u64 (pub_address data) @
     Write_u32 (pub_parameter_size data)"

definition Read_PublicSymbol :: "PublicSymbol reader" where
  "Read_PublicSymbol s =
     do {
       (name, s1) \<leftarrow> Read_string [] s;
       (address, s2) \<leftarrow> Read_u64 s1;
       (psize, s3) \<leftarrow> Read_u32 s2;
       Some (\<lparr>pub_name = name, pub_address = address, pub_parameter_size = psize\<rparr>, s3)
     }"

definition Write_StackFrameInfo :: "StackFrameInfo \<Rightarrow> string" where
  "Write_StackFrameInfo data =
     Write_u32 (valid data) @ Write_u32 (prolog_size data) @ Write_u32 (epilog_size data) @
     Write_u32 (parameter_size data) @ Write_u32 (saved_register_size data) @
     Write_u32 (local_size data) @ Write_u32 (max_stack_size data) @
     Write_u32 (if allocates_base_pointer data then 1 else 0) @
     Write_string (program_string data)"

definition Read_StackFrameInfo :: "StackFrameInfo reader" where
  "Read_StackFrameInfo s =
     do {
       (v, s1) \<leftarrow> Read_u32 s;
       (prolog, s2) \<leftarrow> Read_u32 s1;
       (epilog, s3) \<leftarrow> Read_u32 s2;
       (psize, s4) \<leftarrow> Read_u32 s3;
       (saved_regs, s5) \<leftarrow> Read_u32 s4;
       (locals, s6) \<leftarrow> Read_u32 s5;
       (max_stack, s7) \<leftarrow> Read_u32 s6;
       (allocates, s8) \<leftarrow> Read_u32 s7;
       (prog, s9) \<leftarrow> Read_string (program_string StackFrameInfo_default) s8;
       Some (\<lparr>valid = v, prolog_size = prolog, epilog_size = epilog, parameter_size = psize,
              saved_register_size = saved_regs, local_size = locals,
              max_stack_size = max_stack, allocates_base_pointer = (allocates \<noteq> 0),
              program_string = prog\<rparr>, s9)
     }"

subsection \<open>ContainedRangeMap\<close>

text \<open>
  \<open>Write(const ContainedRangeMap &)\<close>: the base, the entry, and a marker that tells whether
  \<open>map_\<close> is set, followed by the child map, whose values are written as pointers.
\<close>

fun Write_CRM :: "StackInfoMap \<Rightarrow> string"
  and Write_CRM_children :: "(MemAddr \<times> StackInfoMap option) list \<Rightarrow> string"
where
  "Write_CRM (CRM b e None) =
     Write_u64 b @ Write_ptr Write_StackFrameInfo e @ Write_u32 0"
| "Write_CRM (CRM b e (Some cs)) =
     Write_u64 b @ Write_ptr Write_StackFrameInfo e @ Write_u32 1 @
     Write_u32 (of_nat (length cs)) @ Write_CRM_children cs"
| "Write_CRM_children [] = []"
| "Write_CRM_children ((k, None) # cs) = Write_u64 k @ Write_u32 0 @ Write_CRM_children cs"
| "Write_CRM_children ((k, Some c) # cs) =
     Write_u64 k @ Write_u32 1 @ Write_CRM c @ Write_CRM_children cs"

text \<open>
  \<open>Read(ContainedRangeMap &data)\<close> and, for the children, \<open>Read(map<k, v> &)\<close> with
  \<open>Read(ContainedRangeMap *&)\<close>.  The recursion of the source follows the stream and ends
  because every call reads characters before it descends; the first argument bounds the
  depth of the descent, and \<open>Read_CRM\<close> gives it the length of the stream, which the depth
  cannot reach.  Without the marker 1 the member \<open>map_\<close> is left as it is, and a child
  pointer is NULL.
\<close>

fun Read_CRM_depth :: "nat \<Rightarrow> StackInfoMap \<Rightarrow> StackInfoMap reader"
  and Read_CRM_children ::
    "nat \<Rightarrow> nat \<Rightarrow> (MemAddr \<times> StackInfoMap option) list \<Rightarrow>
     (MemAddr \<times> StackInfoMap option) list reader"
where
  "Read_CRM_depth 0 data s = None"
| "Read_CRM_depth (Suc d) data s =
     do {
       (base, s1) \<leftarrow> Read_u64 s;
       (entry, s2) \<leftarrow> Read_linked_ptr Read_StackFrameInfo (crm_entry data) s1;
       (marker, s3) \<leftarrow> Read_u32 s2;
       if marker = 1
       then do {
         (len, s4) \<leftarrow> Read_u32 s3;
         (cs, s5) \<leftarrow> Read_CRM_children d (unat len) [] s4;
         Some (CRM base entry (Some cs), s5)
       }
       else Some (CRM base entry (crm_map data), s3)
     }"
| "Read_CRM_children d 0 data s = Some (data, s)"
| "Read_CRM_children d (Suc n) data s =
     do {
       (key, s1) \<leftarrow> Read_u64 s;
       (marker, s2) \<leftarrow> Read_u32 s1;
       (child, s3) \<leftarrow>
         (if marker = 1
          then do { (c, s') \<leftarrow> Read_CRM_depth d ContainedRangeMap_new s2; Some (Some c, s') }
          else Some (None, s2));
       Read_CRM_children d n (map_insert key child data) s3
     }"

definition Read_CRM :: "StackInfoMap \<Rightarrow> StackInfoMap reader" where
  "Read_CRM data s = Read_CRM_depth (length s) data s"

subsection \<open>Serialize and Deserialize\<close>

definition SERIALIZE_FORMAT :: u_int32_t where
  "SERIALIZE_FORMAT = 1"

text \<open>
  \<open>Serialize\<close> on a serializer that holds an output stream: the characters written to the
  stream from its start.
\<close>

definition Serialize :: "Module \<Rightarrow> string" where
  "Serialize m =
     Write_u32 SERIALIZE_FORMAT @
     Write_map Write_u32 Write_string (mod_files m) @
     Write_RangeMap (Write_ptr Write_Function) (mod_functions m) @
     Write_map Write_u64 (Write_ptr Write_PublicSymbol) (mod_public_symbols m) @
     Write_CRM (mod_stack_info m STACK_INFO_FPO) @
     Write_CRM (mod_stack_info m STACK_INFO_TRAP) @
     Write_CRM (mod_stack_info m STACK_INFO_TSS) @
     Write_CRM (mod_stack_info m STACK_INFO_STANDARD) @
     Write_CRM (mod_stack_info m STACK_INFO_FRAME_DATA)"

text \<open>
  \<open>Deserialize\<close> on a serializer that holds an input stream: the value returned and the
  module as the function leaves it; \<open>None\<close> when the stream fails.
\<close>

definition Deserialize :: "string \<Rightarrow> Module \<Rightarrow> (bool \<times> Module) option" where
  "Deserialize stream m =
     do {
       (format, s1) \<leftarrow> Read_u32 stream;
       if format \<noteq> SERIALIZE_FORMAT then Some (False, m)
       else do {
         (fls, s2) \<leftarrow> Read_map Read_u32 (Read_string []) (mod_files m) s1;
         (fns, s3) \<leftarrow>
           Read_RangeMap (Read_linked_ptr Read_Function None) (mod_functions m) s2;
         (pubs, s4) \<leftarrow>
           Read_map Read_u64 (Read_linked_ptr Read_PublicSymbol None) (mod_public_symbols m) s3;
         (fpo, s5) \<leftarrow> Read_CRM (mod_stack_info m STACK_INFO_FPO) s4;
         (trap, s6) \<leftarrow> Read_CRM (mod_stack_info m STACK_INFO_TRAP) s5;
         (tss, s7) \<leftarrow> Read_CRM (mod_stack_info m STACK_INFO_TSS) s6;
         (standard, s8) \<leftarrow> Read_CRM (mod_stack_info m STACK_INFO_STANDARD) s7;
         (frame_data, s9) \<leftarrow> Read_CRM (mod_stack_info m STACK_INFO_FRAME_DATA) s8;
         Some (True,
               m\<lparr>mod_files := fls, mod_functions := fns, mod_public_symbols := pubs,
                 mod_stack_info :=
                   (mod_stack_info m)
                     (STACK_INFO_FPO := fpo, STACK_INFO_TRAP := trap, STACK_INFO_TSS := tss,
                      STACK_INFO_STANDARD := standard, STACK_INFO_FRAME_DATA := frame_data)\<rparr>)
       }
     }"

section \<open>BasicSourceLineResolver\<close>

text \<open>
  Modelled from the spec: \<open>source_line_resolver_module_cache_interface.h\<close> is not among the
  sources.  \<open>GetModuleData\<close> returns a stream of the bytes stored for a symbol file, or
  fails; \<open>BeginSetModuleData\<close> returns a stream to write to, or fails; \<open>EndSetModuleData\<close>
  commits what was written.
\<close>

record ModuleCache =
  cached :: "string \<Rightarrow> string option"
  writable :: "string \<Rightarrow> bool"

definition GetModuleData :: "ModuleCache \<Rightarrow> string \<Rightarrow> string option" where
  "GetModuleData cache symbol_file = cached cache symbol_file"

definition BeginSetModuleData :: "ModuleCache \<Rightarrow> string \<Rightarrow> bool" where
  "BeginSetModuleData cache symbol_file = writable cache symbol_file"

definition EndSetModuleData :: "ModuleCache \<Rightarrow> string \<Rightarrow> string \<Rightarrow> ModuleCache" where
  "EndSetModuleData cache symbol_file data =
     cache\<lparr>cached := (cached cache)(symbol_file \<mapsto> data)\<rparr>"

text \<open>
  The resolver holds the table \<open>modules_\<close>, from module name to module, and the pointer
  \<open>module_cache_\<close>.
\<close>

record BasicSourceLineResolver =
  modules :: "string \<Rightarrow> Module option"
  module_cache :: "ModuleCache option"

text \<open>
  \<open>LoadModule\<close>: the value returned and the resolver afterwards; \<open>None\<close> when the stream of
  the cache fails in \<open>Deserialize\<close>.  The value that \<open>Deserialize\<close> returns is not looked at.
\<close>

definition LoadModule ::
  "(string \<Rightarrow> string option) \<Rightarrow> BasicSourceLineResolver \<Rightarrow> string \<Rightarrow> string \<Rightarrow>
   (bool \<times> BasicSourceLineResolver) option" where
  "LoadModule fs r name map_file =
     (if modules r name \<noteq> None then Some (False, r)
      else
        let m = Module_new name;
            instream = (case module_cache r of
                          None \<Rightarrow> None
                        | Some cache \<Rightarrow> GetModuleData cache map_file)
        in case instream of
             Some stream \<Rightarrow>
               (case Deserialize stream m of
                  None \<Rightarrow> None
                | Some (ok, m') \<Rightarrow> Some (True, r\<lparr>modules := (modules r)(name \<mapsto> m')\<rparr>))
           | None \<Rightarrow>
               (case LoadMap fs map_file m of
                  None \<Rightarrow> Some (False, r)
                | Some m' \<Rightarrow>
                    let cache' =
                          (case module_cache r of
                             None \<Rightarrow> None
                           | Some cache \<Rightarrow>
                               if BeginSetModuleData cache map_file
                               then Some (EndSetModuleData cache map_file (Serialize m'))
                               else Some cache)
                    in Some (True, r\<lparr>modules := (modules r)(name \<mapsto> m'),
                                      module_cache := cache'\<rparr>)))"

definition HasModule :: "BasicSourceLineResolver \<Rightarrow> string \<Rightarrow> bool" where
  "HasModule r name = (modules r name \<noteq> None)"


section \<open>Modules that the serializer reproduces\<close>









text \<open>
  A string taken from a line: its characters are characters of the line and it is no
  longer than the line.  A line as \<open>LoadMap\<close> sees it holds no NUL character and at most
  8191 characters.  The invariant of the loop of \<open>LoadMap\<close> after \<open>n\<close> buffers.
\<close>

definition within :: "string \<Rightarrow> string \<Rightarrow> bool" where
  "within line t = (set t \<subseteq> set line \<and> length t \<le> length line)"



section \<open>Records of a symbol file\<close>




section \<open>Example data\<close>

text \<open>
  A module with one file, one function of two lines, two public symbols and stack info of
  both kinds.  It is the module that \<open>LoadMap\<close> builds from the symbol file \<open>app.sym\<close> below
  (lemma \<open>example_module_parsed\<close>).
\<close>

definition example_line_42 :: Line where
  "example_line_42 = \<lparr>line_address = 0x100, line_size = 0x10, source_file_id = 1, line_number = 42\<rparr>"

definition example_line_43 :: Line where
  "example_line_43 = \<lparr>line_address = 0x110, line_size = 0x10, source_file_id = 1, line_number = 43\<rparr>"

definition example_foo :: Function where
  "example_foo =
     \<lparr>func_name = ''foo'', func_address = 0x100, func_size = 0x20, func_parameter_size = 4,
      lines = [(0x10F, (0x100, Some example_line_42)), (0x11F, (0x110, Some example_line_43))]\<rparr>"

definition example_p :: PublicSymbol where
  "example_p = \<lparr>pub_name = ''p'', pub_address = 0x50, pub_parameter_size = 0\<rparr>"

definition example_outside :: PublicSymbol where
  "example_outside = \<lparr>pub_name = ''outside'', pub_address = 0x200, pub_parameter_size = 8\<rparr>"

definition example_fpo_info :: StackFrameInfo where
  "example_fpo_info = StackFrameInfo_new 1 2 3 4 5 6 True []"

definition example_frame_data_info :: StackFrameInfo where
  "example_frame_data_info = StackFrameInfo_new 1 2 3 4 5 6 False ''$T0 .raSearch =''"

definition example_module :: Module where
  "example_module =
     \<lparr>mod_name = ''app'',
      mod_files = [(1, ''/src/foo.c'')],
      mod_functions = [(0x11F, (0x100, Some example_foo))],
      mod_public_symbols = [(0x50, Some example_p), (0x200, Some example_outside)],
      mod_stack_info =
        (\<lambda>t. ContainedRangeMap_new)
          (STACK_INFO_FPO :=
             CRM 0 None (Some [(0x31F, Some (CRM 0x300 (Some example_fpo_info) None))]),
           STACK_INFO_FRAME_DATA :=
             CRM 0 None (Some [(0x31F, Some (CRM 0x300 (Some example_frame_data_info) None))]))\<rparr>"

definition example_code_module :: CodeModule where
  "example_code_module = \<lparr>code_file = ''app'', base_address = 0x1000\<rparr>"

definition example_frame :: "MemAddr \<Rightarrow> StackFrame" where
  "example_frame a =
     \<lparr>instruction = a, frame_module = Some example_code_module, function_name = [],
      function_base = 0, source_file_name = [], source_line = 0, source_line_base = 0\<rparr>"

definition example_resolver :: BasicSourceLineResolver where
  "example_resolver = \<lparr>modules = [''app'' \<mapsto> example_module], module_cache = None\<rparr>"

text \<open>
  The symbol file \<open>app.sym\<close>, of which \<open>example_module\<close> is the parse, and the file
  \<open>app8.sym\<close>, which differs from it in the parameter size of the function only.
\<close>

definition unlines :: "string list \<Rightarrow> string" where
  "unlines ls = concat (map (\<lambda>l. l @ [CHR 0x0A]) ls)"

definition example_sym_file :: string where
  "example_sym_file =
     unlines
       [''FILE 1 /src/foo.c'',
        ''FUNC 100 20 4 foo'',
        ''100 10 42 1'',
        ''110 10 43 1'',
        ''PUBLIC 50 0 p'',
        ''PUBLIC 200 8 outside'',
        ''STACK WIN 0 300 20 1 2 3 4 5 6 0 1'',
        ''STACK WIN 4 300 20 1 2 3 4 5 6 1 $T0 .raSearch ='']"

definition example_sym_file_psize_8 :: string where
  "example_sym_file_psize_8 =
     unlines
       [''FILE 1 /src/foo.c'',
        ''FUNC 100 20 8 foo'',
        ''100 10 42 1'',
        ''110 10 43 1'',
        ''PUBLIC 50 0 p'',
        ''PUBLIC 200 8 outside'',
        ''STACK WIN 0 300 20 1 2 3 4 5 6 0 1'',
        ''STACK WIN 4 300 20 1 2 3 4 5 6 1 $T0 .raSearch ='']"

definition example_fs :: "string \<Rightarrow> string option" where
  "example_fs path =
     (if path = ''app.sym'' then Some example_sym_file
      else if path = ''app8.sym'' then Some example_sym_file_psize_8
      else if path = ''empty.sym'' then Some []
      else None)"

definition example_module_psize_8 :: Module where
  "example_module_psize_8 =
     example_module
       \<lparr>mod_functions := [(0x11F, (0x100, Some (example_foo\<lparr>func_parameter_size := 8\<rparr>)))]\<rparr>"





definition example_stale_resolver :: BasicSourceLineResolver where
  "example_stale_resolver =
     \<lparr>modules = Map.empty,
      module_cache =
        Some \<lparr>cached = (\<lambda>path. if path = ''app.sym'' then Some (Write_u32 2) else None),
              writable = (\<lambda>path. True)\<rparr>\<rparr>"

section \<open>The serializer reads back what it wrote\<close>

lemma length_le_bytes [simp]: "length (le_bytes k n) = k"
  by (induction k arbitrary: n) auto

lemma le_value_le_bytes: "le_value (le_bytes k n) = n mod 256 ^ k"
proof (induction k arbitrary: n)
  case 0
  then show ?case by simp
next
  case (Suc k)
  have "le_value (le_bytes (Suc k) n) = n mod 256 + 256 * ((n div 256) mod 256 ^ k)"
    by (simp add: Suc of_char_of)
  also have "\<dots> = n mod (256 * 256 ^ k)"
    by (simp add: zmod_zmult2_eq)
  finally show ?case by simp
qed

lemma Read_u32_Write_u32 [simp]: "Read_u32 (Write_u32 w @ rest) = Some (w, rest)"
proof -
  have "uint w mod 256 ^ 4 = uint w"
    using uint_bounded [of w] by simp
  then show ?thesis
    by (simp add: Read_u32_def Write_u32_def le_value_le_bytes del: le_bytes.simps)
qed

lemma Read_u64_Write_u64 [simp]: "Read_u64 (Write_u64 w @ rest) = Some (w, rest)"
proof -
  have "uint w mod 256 ^ 8 = uint w"
    using uint_bounded [of w] by simp
  then show ?thesis
    by (simp add: Read_u64_def Write_u64_def le_value_le_bytes del: le_bytes.simps)
qed







lemma Read_Line_Write_Line [simp]: "Read_Line (Write_Line l @ rest) = Some (l, rest)"
  by (simp add: Read_Line_def Write_Line_def)








lemma length_Write_u32 [simp]: "length (Write_u32 w) = 4"
  by (simp add: Write_u32_def del: le_bytes.simps)

lemma length_Write_u64 [simp]: "length (Write_u64 w) = 8"
  by (simp add: Write_u64_def del: le_bytes.simps)





section \<open>Equals on a module and itself\<close>







section \<open>What the parser guarantees\<close>

lemma within_refl [simp]: "within line line"
  by (simp add: within_def)

lemma within_Nil [simp]: "within line []"
  by (simp add: within_def)








































section \<open>Source lines without a function\<close>





lemma fgets_Nil: "fgets n [] = ([], [])"
  by (cases n) auto

lemma fgets_Cons:
  "0 < n \<Longrightarrow> fgets n (c # s) =
     (if c = CHR 0x0A then ([c], s) else (case fgets (n - 1) s of (l, r) \<Rightarrow> (c # l, r)))"
  by (cases n) auto



section \<open>Facts used for the examples and the lookup\<close>

lemmas example_defs = example_module_def example_frame_def example_code_module_def
  example_foo_def example_p_def example_outside_def example_line_42_def example_line_43_def
  example_fpo_info_def example_frame_data_info_def

lemmas lookup_defs = LookupAddress_def probe_stack_info_def fill_from_function_def
  fill_from_public_def synthesize_info_def RangeMap_RetrieveNearestRange_def
  RangeMap_RetrieveRange_def AddressMap_Retrieve_def map_find_def ContainedRangeMap_new_def
  CopyFrom_def StackFrameInfo_default_def VALID_NONE_def VALID_PARAMETER_SIZE_def Let_def

lemmas parse_defs = LoadMap_line_def c_str_def ParseFile_def ParseFunction_def ParseLine_def
  ParsePublicSymbol_def ParseStackInfo_def Tokenize_def Tokenize_loop.simps strtok_r_def
  token_delims_def line_delims_def strtoull_def strtoul_def strtol_def atoi_def scan_number_def
  strip_prefix_def digit_value_def isspace_def RangeMap_StoreRange_def AddressMap_Store_def
  intersects_def map_find_def Function_new_def StackFrameInfo_new_def stack_info_type_def
  update_function_def Module_new_def ContainedRangeMap_new_def VALID_ALL_def Let_def

lemma example_sym_file_lines:
  "read_lines example_sym_file =
     [''FILE 1 /src/foo.c'' @ [CHR 0x0A],
      ''FUNC 100 20 4 foo'' @ [CHR 0x0A],
      ''100 10 42 1'' @ [CHR 0x0A],
      ''110 10 43 1'' @ [CHR 0x0A],
      ''PUBLIC 50 0 p'' @ [CHR 0x0A],
      ''PUBLIC 200 8 outside'' @ [CHR 0x0A],
      ''STACK WIN 0 300 20 1 2 3 4 5 6 0 1'' @ [CHR 0x0A],
      ''STACK WIN 4 300 20 1 2 3 4 5 6 1 $T0 .raSearch ='' @ [CHR 0x0A]]"
  by (simp add: example_sym_file_def unlines_def read_lines.simps fgets_Nil fgets_Cons)

lemma example_sym_file_psize_8_lines:
  "read_lines example_sym_file_psize_8 =
     [''FILE 1 /src/foo.c'' @ [CHR 0x0A],
      ''FUNC 100 20 8 foo'' @ [CHR 0x0A],
      ''100 10 42 1'' @ [CHR 0x0A],
      ''110 10 43 1'' @ [CHR 0x0A],
      ''PUBLIC 50 0 p'' @ [CHR 0x0A],
      ''PUBLIC 200 8 outside'' @ [CHR 0x0A],
      ''STACK WIN 0 300 20 1 2 3 4 5 6 0 1'' @ [CHR 0x0A],
      ''STACK WIN 4 300 20 1 2 3 4 5 6 1 $T0 .raSearch ='' @ [CHR 0x0A]]"
  by (simp add: example_sym_file_psize_8_def unlines_def read_lines.simps fgets_Nil fgets_Cons)

lemma example_module_parsed:
  "LoadMap example_fs ''app.sym'' (Module_new name) = Some (example_module\<lparr>mod_name := name\<rparr>)"
  by (simp add: LoadMap_def example_fs_def example_sym_file_lines parse_defs example_defs)

lemma example_module_psize_8_parsed:
  "LoadMap example_fs ''app8.sym'' (Module_new name)
     = Some (example_module_psize_8\<lparr>mod_name := name\<rparr>)"
  by (simp add: LoadMap_def example_fs_def example_sym_file_psize_8_lines parse_defs example_defs
      example_module_psize_8_def)

lemma CopyFrom_id: "CopyFrom that = that"
  by (simp add: CopyFrom_def)


section \<open>Properties of the serializer\<close>



text \<open>
  Claim C2.  \<open>Equals\<close> on two functions compares name, address, size and lines, and not the
  parameter size.  The symbol files \<open>app.sym\<close> and \<open>app8.sym\<close> differ only in the parameter
  size of the function \<open>foo\<close> (4 and 8), and so do the modules parsed from them; the first
  module \<open>Equals\<close> the second.
\<close>

theorem Module_Equals_ignores_parameter_size:
  "LoadMap example_fs ''app.sym'' (Module_new ''app'') = Some example_module \<and>
   LoadMap example_fs ''app8.sym'' (Module_new ''app'') = Some example_module_psize_8 \<and>
   mod_functions example_module = [(0x11F, (0x100, Some example_foo))] \<and>
   mod_functions example_module_psize_8
     = [(0x11F, (0x100, Some (example_foo\<lparr>func_parameter_size := 8\<rparr>)))] \<and>
   func_parameter_size example_foo = 4 \<and>
   example_module_psize_8 = example_module\<lparr>mod_functions := mod_functions example_module_psize_8\<rparr> \<and>
   Module_Equals example_module example_module_psize_8"
proof -
  have p4: "LoadMap example_fs ''app.sym'' (Module_new ''app'') = Some example_module"
    using example_module_parsed [of "''app''"] by (simp add: example_module_def)
  have p8: "LoadMap example_fs ''app8.sym'' (Module_new ''app'') = Some example_module_psize_8"
    using example_module_psize_8_parsed [of "''app''"]
    by (simp add: example_module_psize_8_def example_module_def)
  have eq: "Module_Equals example_module example_module_psize_8"
    by (simp add: example_module_psize_8_def example_defs Module_Equals_def Equals_map_def
        map_find_def RangeMap_Equals_def AddressMap_Equals_def Equals_ptr_def
        Function_Equals_def Line_eq_def PublicSymbol_eq_def StackFrameInfo_eq_def
        ContainedRangeMap_new_def)
  show ?thesis
    using p4 p8 eq by (simp add: example_module_psize_8_def example_module_def example_foo_def)
qed

section \<open>Properties of the address lookup\<close>

text \<open>
  Claim C4.  When the address is not within the nearest function, the public symbol that
  \<open>Retrieve\<close> finds at address \<open>p\<close> fills the frame exactly when there is no nearest
  function or \<open>p > fbase + fsize\<close>; otherwise the frame is returned as it was, with the
  stack info of the probe.
\<close>

theorem LookupAddress_public_symbol_rule:
  assumes fm: "frame_module frame = Some cm"
    and a: "address = instruction frame - base_address cm"
    and pub: "AddressMap_Retrieve (mod_public_symbols m) address = Some (Some ps, p)"
  shows "(RangeMap_RetrieveNearestRange (mod_functions m) address = None \<longrightarrow>
            LookupAddress m frame =
              Some (frame\<lparr>function_name := pub_name ps, function_base := base_address cm + p\<rparr>,
                    synthesize_info (probe_stack_info m address) (pub_parameter_size ps))) \<and>
         (\<forall>func fb fs.
            RangeMap_RetrieveNearestRange (mod_functions m) address = Some (func, fb, fs) \<and>
            \<not> (fb \<le> address \<and> address < fb + fs) \<longrightarrow>
            LookupAddress m frame =
              (if func = None \<or> fb + fs < p
               then Some (frame\<lparr>function_name := pub_name ps,
                                function_base := base_address cm + p\<rparr>,
                          synthesize_info (probe_stack_info m address) (pub_parameter_size ps))
               else Some (frame, probe_stack_info m address)))"
  using fm a pub
  by (auto simp: LookupAddress_def fill_from_public_def Let_def)

theorem LookupAddress_public_symbol_rule_witness:
  "frame_module (example_frame 0x1130) = Some example_code_module \<and>
   AddressMap_Retrieve (mod_public_symbols example_module) 0x130 = Some (Some example_p, 0x50) \<and>
   RangeMap_RetrieveNearestRange (mod_functions example_module) 0x130
     = Some (Some example_foo, 0x100, 0x20) \<and>
   \<not> ((0x100 :: MemAddr) + 0x20 < 0x50) \<and>
   LookupAddress example_module (example_frame 0x1130) =
     Some (example_frame 0x1130, probe_stack_info example_module 0x130)"
proof -
  have fm: "frame_module (example_frame 0x1130) = Some example_code_module"
    by (simp add: example_frame_def)
  have a: "(0x130 :: MemAddr) = instruction (example_frame 0x1130) - base_address example_code_module"
    by (simp add: example_frame_def example_code_module_def)
  have pub: "AddressMap_Retrieve (mod_public_symbols example_module) 0x130
     = Some (Some example_p, 0x50)"
    by (simp add: example_module_def AddressMap_Retrieve_def)
  have near: "RangeMap_RetrieveNearestRange (mod_functions example_module) 0x130
     = Some (Some example_foo, 0x100, 0x20)"
    by (simp add: example_module_def RangeMap_RetrieveNearestRange_def)
  have out: "\<not> ((0x100 :: MemAddr) \<le> 0x130 \<and> (0x130 :: MemAddr) < 0x100 + 0x20)" by simp
  have below: "\<not> ((0x100 :: MemAddr) + 0x20 < 0x50)" by simp
  show ?thesis
    using LookupAddress_public_symbol_rule [OF fm a pub] fm pub near out below by simp
qed



text \<open>
  Claim C6.  The stack info is looked up in the FRAME_DATA slot first: an info found there
  is the one returned, and the FPO slot does not matter then (the lookup gives the same
  result for any contents of the FPO slot).  The info of the FPO slot is returned when the
  FRAME_DATA slot holds nothing for the address.
\<close>

theorem LookupAddress_stack_info_priority:
  assumes fm: "frame_module frame = Some cm"
    and a: "address = instruction frame - base_address cm"
  shows "(CRM_RetrieveRange (mod_stack_info m STACK_INFO_FRAME_DATA) address = Some (Some i4) \<longrightarrow>
            (\<forall>frame' info. LookupAddress m frame = Some (frame', info) \<longrightarrow>
               info = Some i4 \<and> program_string (the info) = program_string i4)) \<and>
         (CRM_RetrieveRange (mod_stack_info m STACK_INFO_FRAME_DATA) address \<noteq> None \<longrightarrow>
            (\<forall>fpo. LookupAddress
                     (m\<lparr>mod_stack_info := (mod_stack_info m)(STACK_INFO_FPO := fpo)\<rparr>) frame
                   = LookupAddress m frame)) \<and>
         (CRM_RetrieveRange (mod_stack_info m STACK_INFO_FRAME_DATA) address = None \<longrightarrow>
          CRM_RetrieveRange (mod_stack_info m STACK_INFO_FPO) address = Some (Some i0) \<longrightarrow>
            (\<forall>frame' info. LookupAddress m frame = Some (frame', info) \<longrightarrow> info = Some i0))"
  using fm a
  by (auto simp: LookupAddress_def probe_stack_info_def fill_from_function_def fill_from_public_def
      synthesize_info_def CopyFrom_id Let_def split: option.splits prod.splits if_splits)

theorem LookupAddress_stack_info_priority_witness:
  "frame_module (example_frame 0x1310) = Some example_code_module \<and>
   CRM_RetrieveRange (mod_stack_info example_module STACK_INFO_FRAME_DATA) 0x310
     = Some (Some example_frame_data_info) \<and>
   CRM_RetrieveRange (mod_stack_info example_module STACK_INFO_FPO) 0x310
     = Some (Some example_fpo_info) \<and>
   program_string example_fpo_info \<noteq> program_string example_frame_data_info \<and>
   LookupAddress example_module (example_frame 0x1310) =
     Some ((example_frame 0x1310)\<lparr>function_name := ''outside'', function_base := 0x1200\<rparr>,
           Some example_frame_data_info)"
proof -
  have fm: "frame_module (example_frame 0x1310) = Some example_code_module"
    by (simp add: example_frame_def)
  have a: "(0x310 :: MemAddr) = instruction (example_frame 0x1310) - base_address example_code_module"
    by (simp add: example_frame_def example_code_module_def)
  have fd: "CRM_RetrieveRange (mod_stack_info example_module STACK_INFO_FRAME_DATA) 0x310
     = Some (Some example_frame_data_info)"
    by (simp add: example_module_def)
  have fpo: "CRM_RetrieveRange (mod_stack_info example_module STACK_INFO_FPO) 0x310
     = Some (Some example_fpo_info)"
    by (simp add: example_module_def)
  have ne: "program_string example_fpo_info \<noteq> program_string example_frame_data_info"
    by (simp add: example_fpo_info_def example_frame_data_info_def StackFrameInfo_new_def)
  have res: "LookupAddress example_module (example_frame 0x1310) =
     Some ((example_frame 0x1310)\<lparr>function_name := ''outside'', function_base := 0x1200\<rparr>,
           Some example_frame_data_info)"
    by (simp add: example_defs lookup_defs StackFrameInfo_new_def)
  show ?thesis
    using LookupAddress_stack_info_priority [OF fm a, of example_module example_frame_data_info example_fpo_info]
      fm fd fpo ne res
    by blast
qed



text \<open>
  Claim C10.  Two modules with the same files, functions, public symbols and FPO and
  FRAME_DATA slots give the same result of \<open>LookupAddress\<close> for every frame, whatever their
  TRAP, TSS and STANDARD slots hold.
\<close>

theorem LookupAddress_unused_slots:
  assumes "mod_files m1 = mod_files m2"
    and "mod_functions m1 = mod_functions m2"
    and "mod_public_symbols m1 = mod_public_symbols m2"
    and "mod_stack_info m1 STACK_INFO_FPO = mod_stack_info m2 STACK_INFO_FPO"
    and "mod_stack_info m1 STACK_INFO_FRAME_DATA = mod_stack_info m2 STACK_INFO_FRAME_DATA"
  shows "LookupAddress m1 frame = LookupAddress m2 frame"
  using assms
  by (simp add: LookupAddress_def probe_stack_info_def fill_from_function_def Let_def
      split: option.splits)

theorem LookupAddress_unused_slots_witness:
  "mod_files example_module = mod_files (example_module\<lparr>mod_name := ''other'',
       mod_stack_info := (mod_stack_info example_module)
         (STACK_INFO_TRAP := CRM 7 None None, STACK_INFO_TSS := CRM 8 None (Some []),
          STACK_INFO_STANDARD := CRM 0 None (Some [(0x31F, Some (CRM 0x300 (Some example_fpo_info) None))]))\<rparr>) \<and>
   LookupAddress example_module (example_frame 0x1310) =
   LookupAddress (example_module\<lparr>mod_name := ''other'',
       mod_stack_info := (mod_stack_info example_module)
         (STACK_INFO_TRAP := CRM 7 None None, STACK_INFO_TSS := CRM 8 None (Some []),
          STACK_INFO_STANDARD := CRM 0 None (Some [(0x31F, Some (CRM 0x300 (Some example_fpo_info) None))]))\<rparr>)
     (example_frame 0x1310)"
  using LookupAddress_unused_slots [of example_module "example_module\<lparr>mod_name := ''other'',
       mod_stack_info := (mod_stack_info example_module)
         (STACK_INFO_TRAP := CRM 7 None None, STACK_INFO_TSS := CRM 8 None (Some []),
          STACK_INFO_STANDARD := CRM 0 None (Some [(0x31F, Some (CRM 0x300 (Some example_fpo_info) None))]))\<rparr>"
       "example_frame 0x1310"]
  by simp

section \<open>Properties of the resolver\<close>

text \<open>
  Claim C8.  \<open>LoadModule\<close> on a name that is already in the table returns \<open>false\<close> and
  leaves the resolver, the table included, as it was.
\<close>

theorem LoadModule_duplicate_name:
  assumes "modules r name \<noteq> None"
  shows "LoadModule fs r name map_file = Some (False, r)"
  using assms by (simp add: LoadModule_def)

theorem LoadModule_duplicate_name_witness:
  "modules example_resolver ''app'' \<noteq> None \<and>
   LoadModule example_fs example_resolver ''app'' ''app.sym''
     = Some (False, example_resolver)"
  using LoadModule_duplicate_name [of example_resolver "''app''" example_fs "''app.sym''"]
  by (simp add: example_resolver_def)

text \<open>
  Claim C3.  On a stream that starts with the format 2, \<open>Deserialize\<close> returns \<open>false\<close> and
  leaves the module as it was.  \<open>LoadModule\<close> does not look at that value: with such a
  stream in the cache for \<open>app.sym\<close> it registers the empty module and returns \<open>true\<close>.
  The symbol file is not read: parsing it gives \<open>example_module\<close>, which has a function.
\<close>

theorem LoadModule_ignores_failed_Deserialize:
  "modules example_stale_resolver ''app'' = None \<and>
   GetModuleData (the (module_cache example_stale_resolver)) ''app.sym'' = Some (Write_u32 2) \<and>
   Read_u32 (Write_u32 2) = Some (2, []) \<and>
   Deserialize (Write_u32 2) (Module_new ''app'') = Some (False, Module_new ''app'') \<and>
   LoadModule example_fs example_stale_resolver ''app'' ''app.sym''
     = Some (True, example_stale_resolver
                     \<lparr>modules := (modules example_stale_resolver)(''app'' \<mapsto> Module_new ''app'')\<rparr>) \<and>
   LoadMap example_fs ''app.sym'' (Module_new ''app'') = Some example_module \<and>
   mod_functions (Module_new ''app'') = [] \<and>
   mod_functions example_module = [(0x11F, (0x100, Some example_foo))]"
proof -
  have rd: "Read_u32 (Write_u32 2) = Some (2, [])"
    using Read_u32_Write_u32 [of 2 "[]"] by simp
  have de: "Deserialize (Write_u32 2) (Module_new ''app'') = Some (False, Module_new ''app'')"
    by (simp add: Deserialize_def rd SERIALIZE_FORMAT_def)
  have lm: "LoadModule example_fs example_stale_resolver ''app'' ''app.sym''
     = Some (True, example_stale_resolver
                     \<lparr>modules := (modules example_stale_resolver)(''app'' \<mapsto> Module_new ''app'')\<rparr>)"
    by (simp add: LoadModule_def example_stale_resolver_def GetModuleData_def de)
  have parsed: "LoadMap example_fs ''app.sym'' (Module_new ''app'') = Some example_module"
    using example_module_parsed [of "''app''"] by (simp add: example_module_def)
  show ?thesis
    using rd de lm parsed
    by (simp add: example_stale_resolver_def GetModuleData_def Module_new_def example_module_def)
qed




end
